theory Spec2Isabelle
  imports Main "HOL-Library.Word" "HOL-Library.Signed_Division"
begin

section \<open>The iterator protocol seen by the value mapper\<close>

text \<open>
  Go interface values are nilable: a \<^verbatim>\<open>graph.Ref\<close> is \<open>'r option\<close>, a \<^verbatim>\<open>quad.Value\<close> is
  \<open>'v option\<close> and an \<^verbatim>\<open>error\<close> is \<open>'e option\<close>, with \<open>None\<close> for \<^verbatim>\<open>nil\<close>.
  The context argument is \<open>'c\<close>.

  \<^verbatim>\<open>graph.Namer\<close>: \<^verbatim>\<open>NameOf\<close> resolves a handle to its value, \<^verbatim>\<open>ValueOf\<close> interns a
  value and answers \<^verbatim>\<open>nil\<close> when the store does not hold it.
\<close>

record ('r, 'v) Namer =
  NameOf :: "'r option \<Rightarrow> 'v option"
  ValueOf :: "'v option \<Rightarrow> 'r option"

type_synonym ('v, 'e) ValueMapperFunc = "'v option \<Rightarrow> 'v option \<times> 'e option"

type_synonym 'r tags = "string \<rightharpoonup> 'r option"

text \<open>
  A child cursor is an object behind an interface. Its private state is a value of type
  \<open>'s\<close>; every method takes the state and, when it may change it, returns the new one.
\<close>

record ('s, 'c, 'r, 'e) Scanner =
  sc_Next :: "'c \<Rightarrow> 's \<Rightarrow> bool \<times> 's"
  sc_Result :: "'s \<Rightarrow> 'r option"
  sc_Err :: "'s \<Rightarrow> 'e option"
  sc_NextPath :: "'c \<Rightarrow> 's \<Rightarrow> bool \<times> 's"
  sc_TagResults :: "'s \<Rightarrow> 'r tags \<Rightarrow> 'r tags"
  sc_Close :: "'s \<Rightarrow> 'e option \<times> 's"

record ('s, 'c, 'r, 'e) Index =
  ix_Contains :: "'c \<Rightarrow> 'r option \<Rightarrow> 's \<Rightarrow> bool \<times> 's"
  ix_Result :: "'s \<Rightarrow> 'r option"
  ix_Err :: "'s \<Rightarrow> 'e option"
  ix_NextPath :: "'c \<Rightarrow> 's \<Rightarrow> bool \<times> 's"
  ix_TagResults :: "'s \<Rightarrow> 'r tags \<Rightarrow> 'r tags"
  ix_Close :: "'s \<Rightarrow> 'e option \<times> 's"

text \<open>
  Modelled from the spec: the declarations of \<^verbatim>\<open>graph.IteratorCosts\<close> and of its
  \<^verbatim>\<open>Size\<close> are in package \<^verbatim>\<open>graph\<close>, outside the verified sources. By the
  specification a Cost Estimate is \<^verbatim>\<open>{size: integer, exact: boolean}\<close> plus relative
  per-step cost hints. The fields are named as \<^verbatim>\<open>Stats\<close> names them (\<^verbatim>\<open>st.Size.Size\<close>,
  \<^verbatim>\<open>st.Size.Exact\<close>); the integers are taken as Go \<^verbatim>\<open>int64\<close>.
\<close>

type_synonym int64 = "64 word"

text \<open>
  Go's \<^verbatim>\<open>/\<close> on \<^verbatim>\<open>int64\<close>: the quotient truncated towards zero, wrapped to 64 bits.
  (Division by zero panics in Go; the only divisor here is the constant 2.)
\<close>

definition int64_quo :: "int64 \<Rightarrow> int64 \<Rightarrow> int64" where
  "int64_quo a b = word_of_int (sint a sdiv sint b)"

record Size =
  size_Size :: int64
  size_Exact :: bool

record IteratorCosts =
  ContainsCost :: int64
  NextCost :: int64
  Size :: Size

text \<open>
  A child shape. \<^verbatim>\<open>Optimize\<close> answers the shape to use from now on and the changed flag;
  since the receiver is a pointer, the third component is the receiver itself after the
  call (a shape may rewrite its own fields and still answer itself).
\<close>

record ('sh, 'c, 'e) IteratorShape =
  sh_Optimize :: "'c \<Rightarrow> 'sh \<Rightarrow> ('sh \<times> bool) \<times> 'sh"
  sh_Stats :: "'c \<Rightarrow> 'sh \<Rightarrow> IteratorCosts \<times> 'e option"

section \<open>valueMapper: the shape\<close>

record ('sh, 'r, 'v, 'e) valueMapper =
  vm_sub :: 'sh
  vm_mapper :: "('v, 'e) ValueMapperFunc"
  vm_qs :: "('r, 'v) Namer"

definition newValueMapper ::
  "('r, 'v) Namer \<Rightarrow> 'sh \<Rightarrow> ('v, 'e) ValueMapperFunc \<Rightarrow> ('sh, 'r, 'v, 'e) valueMapper" where
  "newValueMapper qs sub mapper = \<lparr>vm_sub = sub, vm_mapper = mapper, vm_qs = qs\<rparr>"

text \<open>
  \<^verbatim>\<open>Optimize\<close>: the child is optimized, \<^verbatim>\<open>it.sub\<close> is replaced when the child says it changed,
  and the method returns \<^verbatim>\<open>it, true\<close>.
\<close>

definition Optimize ::
  "('sh, 'c, 'e) IteratorShape \<Rightarrow> 'c \<Rightarrow> ('sh, 'r, 'v, 'e) valueMapper
     \<Rightarrow> ('sh, 'r, 'v, 'e) valueMapper \<times> bool" where
  "Optimize S ctx it =
     (case sh_Optimize S ctx (vm_sub it) of
        ((newSub, changed), sub') \<Rightarrow>
          (if changed then it\<lparr>vm_sub := newSub\<rparr> else it\<lparr>vm_sub := sub'\<rparr>, True))"

text \<open>
  \<^verbatim>\<open>Stats\<close>: \<^verbatim>\<open>st.Size.Size = st.Size.Size/2 + 1\<close> on \<^verbatim>\<open>int64\<close>,
  \<^verbatim>\<open>st.Size.Exact = false\<close>, the child's error passed on.
\<close>

definition Stats ::
  "('sh, 'c, 'e) IteratorShape \<Rightarrow> 'c \<Rightarrow> ('sh, 'r, 'v, 'e) valueMapper
     \<Rightarrow> IteratorCosts \<times> 'e option" where
  "Stats S ctx it =
     (case sh_Stats S ctx (vm_sub it) of
        (st, err) \<Rightarrow>
          (st\<lparr>Size := (Size st)\<lparr>size_Size := int64_quo (size_Size (Size st)) 2 + 1,
                                 size_Exact := False\<rparr>\<rparr>, err))"

section \<open>valueMapperNext: the Scanner role\<close>

record ('s, 'r, 'v, 'e) valueMapperNext =
  n_sub :: 's
  n_mapper :: "('v, 'e) ValueMapperFunc"
  n_qs :: "('r, 'v) Namer"
  n_result :: "'r option"
  n_err :: "'e option"

definition newValueMapperNext ::
  "('r, 'v) Namer \<Rightarrow> 's \<Rightarrow> ('v, 'e) ValueMapperFunc \<Rightarrow> ('s, 'r, 'v, 'e) valueMapperNext" where
  "newValueMapperNext qs sub mapper =
     \<lparr>n_sub = sub, n_mapper = mapper, n_qs = qs, n_result = None, n_err = None\<rparr>"

text \<open>\<^verbatim>\<open>doMap\<close> stores a mapper error in \<^verbatim>\<open>it.err\<close> and returns the mapped value all the same.\<close>

definition doMap ::
  "'r option \<Rightarrow> ('s, 'r, 'v, 'e) valueMapperNext
     \<Rightarrow> 'v option \<times> ('s, 'r, 'v, 'e) valueMapperNext" where
  "doMap val it =
     (let qval = NameOf (n_qs it) val in
      case n_mapper it qval of
        (ok, err) \<Rightarrow> (ok, if err \<noteq> None then it\<lparr>n_err := err\<rparr> else it))"

text \<open>
  \<^verbatim>\<open>Next\<close>: the loop \<^verbatim>\<open>for it.sub.Next(ctx) { ... }\<close>. It runs as long as the child
  delivers handles whose mapped value does not intern, so it need not return: the result
  is \<open>None\<close> when it does not.
\<close>

partial_function (option) Next ::
  "('s, 'c, 'r, 'e) Scanner \<Rightarrow> 'c \<Rightarrow> ('s, 'r, 'v, 'e) valueMapperNext
     \<Rightarrow> (bool \<times> ('s, 'r, 'v, 'e) valueMapperNext) option" where
  "Next S ctx it =
     (case sc_Next S ctx (n_sub it) of
        (advanced, s') \<Rightarrow>
          if advanced then
            (case doMap (sc_Result S s') (it\<lparr>n_sub := s'\<rparr>) of
               (mv, it') \<Rightarrow>
                 (case ValueOf (n_qs it') mv of
                    Some nval \<Rightarrow> Some (True, it'\<lparr>n_result := Some nval\<rparr>)
                  | None \<Rightarrow> Next S ctx it'))
          else Some (False, it\<lparr>n_sub := s', n_err := sc_Err S s'\<rparr>))"

definition Err :: "('s, 'r, 'v, 'e) valueMapperNext \<Rightarrow> 'e option" where
  "Err it = n_err it"

definition Result :: "('s, 'r, 'v, 'e) valueMapperNext \<Rightarrow> 'r option" where
  "Result it = n_result it"

definition NextPath ::
  "('s, 'c, 'r, 'e) Scanner \<Rightarrow> 'c \<Rightarrow> ('s, 'r, 'v, 'e) valueMapperNext
     \<Rightarrow> bool \<times> ('s, 'r, 'v, 'e) valueMapperNext" where
  "NextPath S ctx it =
     (case sc_NextPath S ctx (n_sub it) of (b, s') \<Rightarrow> (b, it\<lparr>n_sub := s'\<rparr>))"

definition TagResults ::
  "('s, 'c, 'r, 'e) Scanner \<Rightarrow> ('s, 'r, 'v, 'e) valueMapperNext \<Rightarrow> 'r tags \<Rightarrow> 'r tags" where
  "TagResults S it dst = sc_TagResults S (n_sub it) dst"

definition Close ::
  "('s, 'c, 'r, 'e) Scanner \<Rightarrow> ('s, 'r, 'v, 'e) valueMapperNext
     \<Rightarrow> 'e option \<times> ('s, 'r, 'v, 'e) valueMapperNext" where
  "Close S it = (case sc_Close S (n_sub it) of (e, s') \<Rightarrow> (e, it\<lparr>n_sub := s'\<rparr>))"

section \<open>valueMapperContains: the Index role\<close>

record ('s, 'r, 'v, 'e) valueMapperContains =
  c_sub :: 's
  c_mapper :: "('v, 'e) ValueMapperFunc"
  c_qs :: "('r, 'v) Namer"
  c_result :: "'r option"
  c_err :: "'e option"

definition newValueMapperContains ::
  "('r, 'v) Namer \<Rightarrow> 's \<Rightarrow> ('v, 'e) ValueMapperFunc
     \<Rightarrow> ('s, 'r, 'v, 'e) valueMapperContains" where
  "newValueMapperContains qs sub mapper =
     \<lparr>c_sub = sub, c_mapper = mapper, c_qs = qs, c_result = None, c_err = None\<rparr>"

definition doMapC ::
  "'r option \<Rightarrow> ('s, 'r, 'v, 'e) valueMapperContains
     \<Rightarrow> 'v option \<times> ('s, 'r, 'v, 'e) valueMapperContains" where
  "doMapC val it =
     (let qval = NameOf (c_qs it) val in
      case c_mapper it qval of
        (ok, err) \<Rightarrow> (ok, if err \<noteq> None then it\<lparr>c_err := err\<rparr> else it))"

text \<open>
  \<^verbatim>\<open>Contains\<close>: the candidate is resolved, mapped and interned; a \<^verbatim>\<open>nil\<close> handle answers
  \<^verbatim>\<open>false\<close> at once, otherwise the child is probed with the mapped handle and its error
  is taken over when it answers \<^verbatim>\<open>false\<close>.
\<close>

definition Contains ::
  "('s, 'c, 'r, 'e) Index \<Rightarrow> 'c \<Rightarrow> 'r option \<Rightarrow> ('s, 'r, 'v, 'e) valueMapperContains
     \<Rightarrow> bool \<times> ('s, 'r, 'v, 'e) valueMapperContains" where
  "Contains X ctx val it =
     (case doMapC val it of
        (mv, it') \<Rightarrow>
          (case ValueOf (c_qs it') mv of
             None \<Rightarrow> (False, it')
           | Some nval \<Rightarrow>
               (case ix_Contains X ctx (Some nval) (c_sub it') of
                  (ok, s') \<Rightarrow>
                    (ok, if \<not> ok then it'\<lparr>c_sub := s', c_err := ix_Err X s'\<rparr>
                         else it'\<lparr>c_sub := s'\<rparr>))))"

definition ErrC :: "('s, 'r, 'v, 'e) valueMapperContains \<Rightarrow> 'e option" where
  "ErrC it = c_err it"

definition ResultC :: "('s, 'r, 'v, 'e) valueMapperContains \<Rightarrow> 'r option" where
  "ResultC it = c_result it"

definition NextPathC ::
  "('s, 'c, 'r, 'e) Index \<Rightarrow> 'c \<Rightarrow> ('s, 'r, 'v, 'e) valueMapperContains
     \<Rightarrow> bool \<times> ('s, 'r, 'v, 'e) valueMapperContains" where
  "NextPathC X ctx it =
     (case ix_NextPath X ctx (c_sub it) of (b, s') \<Rightarrow> (b, it\<lparr>c_sub := s'\<rparr>))"

definition TagResultsC ::
  "('s, 'c, 'r, 'e) Index \<Rightarrow> ('s, 'r, 'v, 'e) valueMapperContains \<Rightarrow> 'r tags \<Rightarrow> 'r tags" where
  "TagResultsC X it dst = ix_TagResults X (c_sub it) dst"

section \<open>Concrete children and a concrete store\<close>

text \<open>
  Small implementations of the child interfaces, to run the cursors on: a scanner over a
  list of handles that reports \<open>ls_fail\<close> as its error once the list is used up, an index
  over a list of members that fails every probe when \<open>li_fail\<close> is set, a leaf shape that
  is its own cost estimate and never changes, and a store whose handles are the stored
  numbers themselves. Both cursors bind their current result to each of their tags and
  count down a number of alternate paths.
\<close>

record ('r, 'e) listScanner =
  ls_rest :: "'r list"
  ls_result :: "'r option"
  ls_fail :: "'e option"
  ls_err :: "'e option"
  ls_tags :: "string list"
  ls_paths :: nat

definition listScanner_Next ::
  "unit \<Rightarrow> ('r, 'e) listScanner \<Rightarrow> bool \<times> ('r, 'e) listScanner" where
  "listScanner_Next ctx s =
     (case ls_rest s of
        [] \<Rightarrow> (False, s\<lparr>ls_err := ls_fail s\<rparr>)
      | x # xs \<Rightarrow> (True, s\<lparr>ls_rest := xs, ls_result := Some x\<rparr>))"

definition listScanner_NextPath ::
  "unit \<Rightarrow> ('r, 'e) listScanner \<Rightarrow> bool \<times> ('r, 'e) listScanner" where
  "listScanner_NextPath ctx s =
     (case ls_paths s of 0 \<Rightarrow> (False, s) | Suc n \<Rightarrow> (True, s\<lparr>ls_paths := n\<rparr>))"

definition listScanner :: "(('r, 'e) listScanner, unit, 'r, 'e) Scanner" where
  "listScanner =
     \<lparr>sc_Next = listScanner_Next, sc_Result = ls_result, sc_Err = ls_err,
      sc_NextPath = listScanner_NextPath,
      sc_TagResults = (\<lambda>s dst. fold (\<lambda>t d. d(t \<mapsto> ls_result s)) (ls_tags s) dst),
      sc_Close = (\<lambda>s. (None, s))\<rparr>"

record ('r, 'e) listIndex =
  li_members :: "'r list"
  li_result :: "'r option"
  li_fail :: "'e option"
  li_err :: "'e option"
  li_tags :: "string list"
  li_paths :: nat

definition listIndex_Contains ::
  "unit \<Rightarrow> 'r option \<Rightarrow> ('r, 'e) listIndex \<Rightarrow> bool \<times> ('r, 'e) listIndex" where
  "listIndex_Contains ctx v s =
     (case li_fail s of
        Some e \<Rightarrow> (False, s\<lparr>li_err := Some e\<rparr>)
      | None \<Rightarrow>
          (case v of
             None \<Rightarrow> (False, s)
           | Some x \<Rightarrow>
               if x \<in> set (li_members s) then (True, s\<lparr>li_result := v\<rparr>) else (False, s)))"

definition listIndex_NextPath ::
  "unit \<Rightarrow> ('r, 'e) listIndex \<Rightarrow> bool \<times> ('r, 'e) listIndex" where
  "listIndex_NextPath ctx s =
     (case li_paths s of 0 \<Rightarrow> (False, s) | Suc n \<Rightarrow> (True, s\<lparr>li_paths := n\<rparr>))"

definition listIndex :: "(('r, 'e) listIndex, unit, 'r, 'e) Index" where
  "listIndex =
     \<lparr>ix_Contains = listIndex_Contains, ix_Result = li_result, ix_Err = li_err,
      ix_NextPath = listIndex_NextPath,
      ix_TagResults = (\<lambda>s dst. fold (\<lambda>t d. d(t \<mapsto> li_result s)) (li_tags s) dst),
      ix_Close = (\<lambda>s. (None, s))\<rparr>"

definition leafShape :: "(IteratorCosts, unit, string) IteratorShape" where
  "leafShape =
     \<lparr>sh_Optimize = (\<lambda>ctx sh. ((sh, False), sh)), sh_Stats = (\<lambda>ctx sh. (sh, None))\<rparr>"

definition numStore :: "nat list \<Rightarrow> (nat, nat) Namer" where
  "numStore stored =
     \<lparr>NameOf = (\<lambda>r. r),
      ValueOf = (\<lambda>v. case v of None \<Rightarrow> None
                       | Some x \<Rightarrow> if x \<in> set stored then Some x else None)\<rparr>"

definition doubling :: "(nat, string) ValueMapperFunc" where
  "doubling v = (map_option (\<lambda>x. 2 * x) v, None)"

definition failingOn :: "nat \<Rightarrow> (nat, string) ValueMapperFunc" where
  "failingOn bad v = (if v = Some bad then (None, Some ''mapper failed'') else (v, None))"

definition successor :: "(nat, string) ValueMapperFunc" where
  "successor v = (map_option Suc v, None)"

definition scanOver :: "nat list \<Rightarrow> string option \<Rightarrow> (nat, string) listScanner" where
  "scanOver xs fail =
     \<lparr>ls_rest = xs, ls_result = None, ls_fail = fail, ls_err = None,
      ls_tags = [''via''], ls_paths = 1\<rparr>"

definition indexOver :: "nat list \<Rightarrow> string option \<Rightarrow> (nat, string) listIndex" where
  "indexOver xs fail =
     \<lparr>li_members = xs, li_result = None, li_fail = fail, li_err = None,
      li_tags = [''via''], li_paths = 1\<rparr>"

text \<open>An index that is in the failed state from the start, as an error iterator is.\<close>

definition failedIndex :: "string \<Rightarrow> (nat, string) listIndex" where
  "failedIndex e =
     \<lparr>li_members = [], li_result = None, li_fail = Some e, li_err = Some e,
      li_tags = [], li_paths = 0\<rparr>"

text \<open>Cursors and an estimate built from them, used as inputs below.\<close>

definition exactNine :: IteratorCosts where
  "exactNine = \<lparr>ContainsCost = 3, NextCost = 4, Size = \<lparr>size_Size = 9, size_Exact = True\<rparr>\<rparr>"

definition mapperFails :: "((nat, string) listScanner, nat, nat, string) valueMapperNext" where
  "mapperFails = newValueMapperNext (numStore [5, 7]) (scanOver [5, 7] None) (failingOn 5)"

definition scanFailingChild :: "((nat, string) listScanner, nat, nat, string) valueMapperNext" where
  "scanFailingChild = newValueMapperNext (numStore [5, 10]) (scanOver [] (Some ''child failed'')) doubling"

definition probeFailingChild :: "((nat, string) listIndex, nat, nat, string) valueMapperContains" where
  "probeFailingChild = newValueMapperContains (numStore [5, 10]) (indexOver [10] (Some ''child failed'')) doubling"

definition internMiss :: "((nat, string) listScanner, nat, nat, string) valueMapperNext" where
  "internMiss = newValueMapperNext (numStore [5]) (scanOver [5] None) doubling"

definition probeSucc :: "((nat, string) listIndex, nat, nat, string) valueMapperContains" where
  "probeSucc = newValueMapperContains (numStore [0, 1, 2]) (indexOver [1] None) successor"

section \<open>The scripting front end: values crossing the boundary\<close>

text \<open>
  Pointers are addresses into the heap defined below. A \<^verbatim>\<open>float64\<close> is kept as what
  \<^verbatim>\<open>toQuadValue\<close> observes of it: whether \<^verbatim>\<open>float64(int(v)) == v\<close> holds, and then the
  integer it converts to; a \<^verbatim>\<open>time.Time\<close> is a number. \<open>quad_value\<close> lists the
  implementations of \<^verbatim>\<open>quad.Value\<close> that \<^verbatim>\<open>typeCheck\<close> tells apart, and \<open>quad_Other\<close>
  any further one.
\<close>

type_synonym addr = nat

datatype float64 = WholeFloat int64 | FracFloat nat

datatype quad_value =
    quad_IRI string
  | quad_BNode string
  | quad_String string
  | quad_Int int64
  | quad_Float float64
  | quad_Bool bool
  | quad_Time nat
  | quad_LangString string string
  | quad_TypedString string string
  | quad_Other nat

text \<open>
  An argument as the script engine exports it (\<^verbatim>\<open>interface{}\<close>): \<open>Nil\<close> is the \<^verbatim>\<open>nil\<close>
  interface (null or undefined), \<open>PathPtr\<close> a \<^verbatim>\<open>*path.Path\<close> (\<open>None\<close> for a \<^verbatim>\<open>nil\<close>
  pointer of that type), \<open>PathObject\<close> a \<^verbatim>\<open>*pathObject\<close>, \<open>Slice\<close> a \<^verbatim>\<open>[]interface{}\<close>,
  \<open>StringSlice\<close> a \<^verbatim>\<open>[]string\<close>, \<open>GoMap\<close> a \<^verbatim>\<open>map[string]interface{}\<close> and \<open>GoFunc\<close> a
  script function.
\<close>

datatype arg =
    Nil
  | QuadValue quad_value
  | GoString string
  | GoBool bool
  | GoInt int64
  | GoInt64 int64
  | GoFloat64 float64
  | GoTime nat
  | PathPtr "addr option"
  | PathObject addr
  | Slice "arg list"
  | StringSlice "string list"
  | GoMap "(string \<times> arg) list"
  | GoFunc nat

text \<open>
  Errors, returned or raised by \<^verbatim>\<open>panic\<close>: a failing call is \<open>Inl\<close> of one of them.
  \<open>Errorf\<close> is \<^verbatim>\<open>fmt.Errorf\<close> with its format and argument, \<open>PanicString\<close> a panic with
  a plain message, \<open>nilDereference\<close> the runtime panic of a \<^verbatim>\<open>nil\<close> pointer, and
  \<open>danglingPointer\<close> an address outside the heap, which Go cannot produce.
\<close>

datatype error =
    errNoVia
  | errArgCountNum int int
  | errArgCount int
  | errUnknownType arg
  | errType string arg
  | errNotQuadValue arg
  | Errorf string arg
  | PanicString string
  | nilDereference
  | danglingPointer

text \<open>
  The two functions of the external \<^verbatim>\<open>quad\<close> library that the conversions call.
\<close>

record quadlib =
  StringToValue :: "string \<Rightarrow> quad_value"
  StringOf :: "quad_value \<Rightarrow> string"

definition bindE :: "error + 'a \<Rightarrow> ('a \<Rightarrow> error + 'b) \<Rightarrow> error + 'b" where
  "bindE r f = (case r of Inl e \<Rightarrow> Inl e | Inr x \<Rightarrow> f x)"

text \<open>
  \<^verbatim>\<open>typeCheck\<close> and the filter function that \<^verbatim>\<open>filterTypes.BuildIterator\<close> hands to
  \<^verbatim>\<open>iterator.NewValueFilter\<close>; \<open>typesLoop\<close> is its \<^verbatim>\<open>for _, typ := range r.types\<close>.
\<close>

fun typeCheck :: "quad_value option \<Rightarrow> string" where
  "typeCheck (Some (quad_IRI _)) = ''iri''"
| "typeCheck (Some (quad_BNode _)) = ''bnode''"
| "typeCheck (Some (quad_String _)) = ''str''"
| "typeCheck (Some (quad_Int _)) = ''int''"
| "typeCheck (Some (quad_Float _)) = ''float''"
| "typeCheck (Some (quad_Bool _)) = ''bool''"
| "typeCheck (Some (quad_Time _)) = ''time''"
| "typeCheck (Some (quad_LangString _ _)) = ''lang''"
| "typeCheck (Some (quad_TypedString _ _)) = ''typed''"
| "typeCheck _ = ''unknown''"

record filterTypes =
  types :: "string list"

fun typesLoop :: "string list \<Rightarrow> string \<Rightarrow> bool \<times> error option" where
  "typesLoop [] vt = (False, Some (errUnknownType (GoString vt)))"
| "typesLoop (typ # rest) vt = (if vt = typ then (True, None) else typesLoop rest vt)"

definition filterTypes_filter :: "filterTypes \<Rightarrow> quad_value option \<Rightarrow> bool \<times> error option" where
  "filterTypes_filter r val = (let vt = typeCheck val in typesLoop (types r) vt)"

text \<open>
  Modelled from the spec: \<^verbatim>\<open>iterator.NewValueFilter\<close> and the Scanner of the node it builds
  are in package \<^verbatim>\<open>graph/iterator\<close>, outside the verified sources. By the specification
  the Scanner of a value filter repeatedly advances the child and, for each produced
  handle, resolves it to a value and applies the function; if the function returns false
  the candidate is discarded and the scan continues with the next child result; if the
  function itself fails the Scanner stops advancing (reports no further result) and
  records the failure as the node's error; an accepted handle becomes the current
  result; and when the child is used up the child's error is taken over.
\<close>

record ('s, 'r, 'v, 'e) valueFilterNext =
  f_sub :: 's
  f_filter :: "'v option \<Rightarrow> bool \<times> 'e option"
  f_qs :: "('r, 'v) Namer"
  f_result :: "'r option"
  f_err :: "'e option"

definition newValueFilterNext ::
  "('r, 'v) Namer \<Rightarrow> 's \<Rightarrow> ('v option \<Rightarrow> bool \<times> 'e option) \<Rightarrow> ('s, 'r, 'v, 'e) valueFilterNext" where
  "newValueFilterNext qs sub fn =
     \<lparr>f_sub = sub, f_filter = fn, f_qs = qs, f_result = None, f_err = None\<rparr>"

partial_function (option) NextFilter ::
  "('s, 'c, 'r, 'e) Scanner \<Rightarrow> 'c \<Rightarrow> ('s, 'r, 'v, 'e) valueFilterNext
     \<Rightarrow> (bool \<times> ('s, 'r, 'v, 'e) valueFilterNext) option" where
  "NextFilter S ctx it =
     (case sc_Next S ctx (f_sub it) of
        (advanced, s') \<Rightarrow>
          if advanced then
            (case f_filter it (NameOf (f_qs it) (sc_Result S s')) of
               (ok, Some failure) \<Rightarrow> Some (False, it\<lparr>f_sub := s', f_err := Some failure\<rparr>)
             | (ok, None) \<Rightarrow>
                 if ok then Some (True, it\<lparr>f_sub := s', f_result := sc_Result S s'\<rparr>)
                 else NextFilter S ctx (it\<lparr>f_sub := s'\<rparr>))
          else Some (False, it\<lparr>f_sub := s', f_err := sc_Err S s'\<rparr>))"

text \<open>
  \<^verbatim>\<open>filterTypes.BuildIterator\<close> is \<^verbatim>\<open>iterator.NewValueFilter(qs, it, fn)\<close> with the filter
  function above; this is the Scanner of the node it returns.
\<close>

definition BuildIterator ::
  "filterTypes \<Rightarrow> ('r, quad_value) Namer \<Rightarrow> 's \<Rightarrow> ('s, 'r, quad_value, error) valueFilterNext" where
  "BuildIterator r qs it = newValueFilterNext qs it (filterTypes_filter r)"

text \<open>A store for the examples: the handle of a value is its position in the list.\<close>

fun positionOf :: "quad_value \<Rightarrow> quad_value list \<Rightarrow> nat option" where
  "positionOf v [] = None"
| "positionOf v (x # xs) = (if v = x then Some 0 else map_option Suc (positionOf v xs))"

definition quadStore :: "quad_value list \<Rightarrow> (nat, quad_value) Namer" where
  "quadStore stored =
     \<lparr>NameOf = (\<lambda>r. case r of None \<Rightarrow> None
                      | Some i \<Rightarrow> if i < length stored then Some (stored ! i) else None),
      ValueOf = (\<lambda>v. case v of None \<Rightarrow> None | Some x \<Rightarrow> positionOf x stored)\<rparr>"

definition literalTypes :: filterTypes where
  "literalTypes = \<lparr>types = [''str'', ''int'', ''float'', ''bool'', ''time'', ''lang'', ''typed'']\<rparr>"

definition literalsOf ::
  "nat list \<Rightarrow> ((nat, error) listScanner, nat, quad_value, error) valueFilterNext" where
  "literalsOf handles =
     BuildIterator literalTypes (quadStore [quad_IRI ''alice'', quad_Int 5])
       \<lparr>ls_rest = handles, ls_result = None, ls_fail = None, ls_err = None,
        ls_tags = [], ls_paths = 0\<rparr>"

fun toQuadValue :: "quadlib \<Rightarrow> arg \<Rightarrow> error + quad_value" where
  "toQuadValue Q (QuadValue v) = Inr v"
| "toQuadValue Q (GoString v) = Inr (StringToValue Q v)"
| "toQuadValue Q (GoBool v) = Inr (quad_Bool v)"
| "toQuadValue Q (GoInt v) = Inr (quad_Int v)"
| "toQuadValue Q (GoInt64 v) = Inr (quad_Int v)"
| "toQuadValue Q (GoFloat64 v) =
     (case v of WholeFloat n \<Rightarrow> Inr (quad_Int n) | FracFloat _ \<Rightarrow> Inr (quad_Float v))"
| "toQuadValue Q (GoTime v) = Inr (quad_Time v)"
| "toQuadValue Q o' = Inl (errNotQuadValue o')"


fun toStrings :: "quadlib \<Rightarrow> arg list \<Rightarrow> error + string list" where
  "toStrings Q [] = Inr []"
| "toStrings Q (o' # objs) =
     bindE (case o' of
              GoString v \<Rightarrow> Inr [v]
            | QuadValue v \<Rightarrow> Inr [StringOf Q v]
            | StringSlice v \<Rightarrow> Inr v
            | Slice v \<Rightarrow> toStrings Q v
            | _ \<Rightarrow> Inl (Errorf ''expected string, got: %T'' o'))
       (\<lambda>out. bindE (toStrings Q objs) (\<lambda>more. Inr (out @ more)))"

section \<open>Path expressions and path objects\<close>

text \<open>
  The value filters the front end builds: a script callback, \<^verbatim>\<open>filterTypes\<close>,
  \<^verbatim>\<open>shape.Wildcard\<close> and \<^verbatim>\<open>shape.Comparison\<close>.
\<close>

datatype valueFilter =
    filterCallback nat
  | filterTypesOf "string list"
  | Wildcard string
  | Comparison int64 quad_value

text \<open>
  Modelled from the spec: \<^verbatim>\<open>path.Path\<close>, its \<^verbatim>\<open>Clone\<close> and its combinators are in package
  \<^verbatim>\<open>graph/path\<close>, outside the verified sources. By the specification a Path
  Expression is an immutable rooted sequence of combinator applications, and a
  combinator returns a brand-new expression that leaves the receiver unaffected. So a
  \<open>Path\<close> is the list of the combinators applied so far (\<open>morphism\<close> has one constructor
  for each combinator the front end calls, holding its arguments), \<open>path_Clone\<close> allocates
  a new \<open>Path\<close> with the receiver's content and \<open>path_extend m\<close>, which stands for any
  combinator, allocates a new \<open>Path\<close> with \<open>m\<close> appended. Both panic on a \<^verbatim>\<open>nil\<close>
  receiver.
\<close>

datatype morphism =
    IsM "quad_value list"
  | InM "arg list"
  | OutM "arg list"
  | BothM "arg list"
  | FollowM "addr option"
  | FollowReverseM "addr option"
  | AndM "addr option" bool
  | OrM "addr option" bool
  | ExceptM "addr option" bool
  | HasM arg "quad_value list"
  | HasReverseM arg "quad_value list"
  | UniqueM
  | LabelsM
  | InPredicatesM
  | OutPredicatesM
  | LabelContextM "arg list"
  | FiltersM valueFilter
  | MapsM nat
  | LimitM int64
  | SkipM int64
  | OrderM

type_synonym Path = "morphism list"

text \<open>
  \<^verbatim>\<open>pathObject\<close> has a session pointer and a path pointer. The heap holds the \<open>Path\<close>
  objects and the path objects; an address is an index and allocation appends.
\<close>

record pathObject =
  po_s :: nat
  po_path :: "addr option"

record heap =
  paths :: "Path list"
  pathObjects :: "pathObject list"

definition getObj :: "heap \<Rightarrow> addr \<Rightarrow> error + pathObject" where
  "getObj h p = (if p < length (pathObjects h) then Inr (pathObjects h ! p) else Inl danglingPointer)"

definition getPath :: "heap \<Rightarrow> addr option \<Rightarrow> error + Path" where
  "getPath h np =
     (case np of
        None \<Rightarrow> Inl nilDereference
      | Some a \<Rightarrow> if a < length (paths h) then Inr (paths h ! a) else Inl danglingPointer)"

text \<open>
  Modelled from the spec: \<^verbatim>\<open>Path.Clone\<close> and the \<^verbatim>\<open>Path\<close> combinators (package
  \<^verbatim>\<open>graph/path\<close>), as described above: each allocates a new \<open>Path\<close> and leaves every
  existing one as it is.
\<close>

definition allocPath :: "heap \<Rightarrow> Path \<Rightarrow> addr option \<times> heap" where
  "allocPath h st = (Some (length (paths h)), h\<lparr>paths := paths h @ [st]\<rparr>)"

definition path_Clone :: "heap \<Rightarrow> addr option \<Rightarrow> error + (addr option \<times> heap)" where
  "path_Clone h np = bindE (getPath h np) (\<lambda>st. Inr (allocPath h st))"

definition path_extend :: "morphism \<Rightarrow> heap \<Rightarrow> addr option \<Rightarrow> error + (addr option \<times> heap)" where
  "path_extend m h np = bindE (getPath h np) (\<lambda>st. Inr (allocPath h (st @ [m])))"

text \<open>
  \<^verbatim>\<open>new\<close> allocates a path object with the receiver's session. \<^verbatim>\<open>clonePath\<close> clones the
  receiver's path, stores the clone in the receiver (\<^verbatim>\<open>p.path, np = np, p.path\<close>) and
  returns the path the receiver held before.
\<close>

definition new :: "heap \<Rightarrow> addr \<Rightarrow> addr option \<Rightarrow> error + (addr \<times> heap)" where
  "new h p np =
     bindE (getObj h p) (\<lambda>po.
       Inr (length (pathObjects h), h\<lparr>pathObjects := pathObjects h @ [\<lparr>po_s = po_s po, po_path = np\<rparr>]\<rparr>))"

definition newVal :: "heap \<Rightarrow> addr \<Rightarrow> addr option \<Rightarrow> error + (addr \<times> heap)" where
  "newVal h p np = new h p np"

definition clonePath :: "heap \<Rightarrow> addr \<Rightarrow> error + (addr option \<times> heap)" where
  "clonePath h p =
     bindE (getObj h p) (\<lambda>po.
     bindE (path_Clone h (po_path po)) (\<lambda>(np, h1).
       Inr (po_path po, h1\<lparr>pathObjects := (pathObjects h1)[p := po\<lparr>po_path := np\<rparr>]\<rparr>)))"

text \<open>
  \<^verbatim>\<open>unwrap\<close> replaces a path object by its path, also inside lists and maps, and
  \<^verbatim>\<open>exportArgs\<close> unwraps every argument.
\<close>

fun unwrap :: "heap \<Rightarrow> arg \<Rightarrow> error + arg"
  and unwrapAll :: "heap \<Rightarrow> arg list \<Rightarrow> error + arg list"
  and unwrapVals :: "heap \<Rightarrow> (string \<times> arg) list \<Rightarrow> error + (string \<times> arg) list" where
  "unwrap h (PathObject v) = bindE (getObj h v) (\<lambda>po. Inr (PathPtr (po_path po)))"
| "unwrap h (Slice v) = bindE (unwrapAll h v) (\<lambda>v'. Inr (Slice v'))"
| "unwrap h (GoMap v) = bindE (unwrapVals h v) (\<lambda>v'. Inr (GoMap v'))"
| "unwrap h Nil = Inr Nil"
| "unwrap h (QuadValue v) = Inr (QuadValue v)"
| "unwrap h (GoString v) = Inr (GoString v)"
| "unwrap h (GoBool v) = Inr (GoBool v)"
| "unwrap h (GoInt v) = Inr (GoInt v)"
| "unwrap h (GoInt64 v) = Inr (GoInt64 v)"
| "unwrap h (GoFloat64 v) = Inr (GoFloat64 v)"
| "unwrap h (GoTime v) = Inr (GoTime v)"
| "unwrap h (PathPtr v) = Inr (PathPtr v)"
| "unwrap h (StringSlice v) = Inr (StringSlice v)"
| "unwrap h (GoFunc v) = Inr (GoFunc v)"
| "unwrapAll h [] = Inr []"
| "unwrapAll h (val # rest) =
     bindE (unwrap h val) (\<lambda>val'. bindE (unwrapAll h rest) (\<lambda>rest'. Inr (val' # rest')))"
| "unwrapVals h [] = Inr []"
| "unwrapVals h ((k, val) # rest) =
     bindE (unwrap h val) (\<lambda>val'. bindE (unwrapVals h rest) (\<lambda>rest'. Inr ((k, val') # rest')))"

definition exportArgs :: "heap \<Rightarrow> arg list \<Rightarrow> error + arg list" where
  "exportArgs h args = unwrapAll h args"



text \<open>
  \<^verbatim>\<open>toVia\<close>: an empty list, and a one-element list holding \<^verbatim>\<open>nil\<close>, mean all predicates;
  a one-element list holding a list is replaced by that list; otherwise every element
  must be a path, a path object or convertible by \<^verbatim>\<open>toQuadValue\<close>, else
  \<^verbatim>\<open>panic(fmt.Errorf("unsupported type: %T", via[i]))\<close>. \<open>viaElems\<close> is the final
  \<^verbatim>\<open>for i := range via\<close>; \<open>weights\<close> is the measure under which the recursion ends.
\<close>

fun viaElems :: "quadlib \<Rightarrow> heap \<Rightarrow> arg list \<Rightarrow> error + arg list" where
  "viaElems Q h [] = Inr []"
| "viaElems Q h (x # rest) =
     bindE (case x of
              PathPtr _ \<Rightarrow> Inr x
            | PathObject vp \<Rightarrow> bindE (getObj h vp) (\<lambda>po. Inr (PathPtr (po_path po)))
            | _ \<Rightarrow> (case toQuadValue Q x of
                       Inr qv \<Rightarrow> Inr (QuadValue qv)
                     | Inl _ \<Rightarrow> Inl (Errorf ''unsupported type: %T'' x)))
       (\<lambda>x'. bindE (viaElems Q h rest) (\<lambda>rest'. Inr (x' # rest')))"

fun weight :: "arg \<Rightarrow> nat" and weights :: "arg list \<Rightarrow> nat" where
  "weight (Slice v) = Suc (weights v)"
| "weight (StringSlice v) = Suc (length v)"
| "weight _ = 0"
| "weights [] = 0"
| "weights (x # xs) = Suc (weight x + weights xs)"

function toVia :: "quadlib \<Rightarrow> heap \<Rightarrow> arg list \<Rightarrow> error + arg list" where
  "toVia Q h via =
     (case via of
        [] \<Rightarrow> Inr []
      | [x] \<Rightarrow>
          (case x of
             Nil \<Rightarrow> Inr []
           | Slice v \<Rightarrow> toVia Q h v
           | StringSlice v \<Rightarrow> toVia Q h (map GoString v)
           | _ \<Rightarrow> viaElems Q h via)
      | _ \<Rightarrow> viaElems Q h via)"
  by pat_completeness auto

termination
proof (relation "measure (\<lambda>(Q, h, via). weights via)")
  show "wf (measure (\<lambda>(Q, h, via). weights via))"
    by simp
next
  fix Q :: quadlib and h :: heap and via :: "arg list" and x xs v
  assume "via = x # xs" "xs = []" "x = Slice v"
  then show "((Q, h, v), Q, h, via) \<in> measure (\<lambda>(Q, h, via). weights via)"
    by simp
next
  fix Q :: quadlib and h :: heap and via :: "arg list" and x xs and v :: "string list"
  assume via: "via = x # xs" "xs = []" "x = StringSlice v"
  have "weights (map GoString v) = length v"
    by (induction v) simp_all
  with via show "((Q, h, map GoString v), Q, h, via) \<in> measure (\<lambda>(Q, h, via). weights via)"
    by simp
qed

declare toVia.simps [simp del]

text \<open>
  \<^verbatim>\<open>toViaData\<close> converts the first argument with \<^verbatim>\<open>toVia\<close> and the others with
  \<^verbatim>\<open>toStrings\<close>; its \<^verbatim>\<open>ok\<close> is always \<^verbatim>\<open>true\<close>.
\<close>

definition toViaData ::
  "quadlib \<Rightarrow> heap \<Rightarrow> arg list \<Rightarrow> error + (arg list \<times> string list \<times> bool)" where
  "toViaData Q h objs =
     bindE (if length objs \<noteq> 0 then toVia Q h [hd objs] else Inr []) (\<lambda>predicates.
     bindE (if length objs > 1 then toStrings Q (tl objs) else Inr []) (\<lambda>tags.
       Inr (predicates, tags, True)))"

text \<open>
  The methods of \<^verbatim>\<open>pathObject\<close>. After checking their arguments they all end in
  \<^verbatim>\<open>np := p.clonePath().X(...); return p.new(np)\<close> for some path combinator \<^verbatim>\<open>X\<close>;
  \<open>extendWith\<close> is that common ending. A method returns the address of the path object
  it answers and the heap after the call. (\<^verbatim>\<open>Regex\<close> and \<^verbatim>\<open>FollowRecursive\<close>, built the
  same way, are left out.)
\<close>

definition extendWith :: "morphism \<Rightarrow> heap \<Rightarrow> addr \<Rightarrow> error + (addr \<times> heap)" where
  "extendWith m h p =
     bindE (clonePath h p) (\<lambda>(np, h1).
     bindE (path_extend m h1 np) (\<lambda>(np', h2).
       new h2 p np'))"


definition inout ::
  "quadlib \<Rightarrow> heap \<Rightarrow> addr \<Rightarrow> arg list \<Rightarrow> bool \<Rightarrow> error + (addr \<times> heap)" where
  "inout Q h p arguments in' =
     bindE (exportArgs h arguments) (\<lambda>xs.
     bindE (toViaData Q h xs) (\<lambda>(preds, tags, ok).
       if \<not> ok then Inl errNoVia
       else extendWith (if in' then InM preds else OutM preds) h p))"

definition In :: "quadlib \<Rightarrow> heap \<Rightarrow> addr \<Rightarrow> arg list \<Rightarrow> error + (addr \<times> heap)" where
  "In Q h p arguments = inout Q h p arguments True"

definition Out :: "quadlib \<Rightarrow> heap \<Rightarrow> addr \<Rightarrow> arg list \<Rightarrow> error + (addr \<times> heap)" where
  "Out Q h p arguments = inout Q h p arguments False"

definition Both :: "quadlib \<Rightarrow> heap \<Rightarrow> addr \<Rightarrow> arg list \<Rightarrow> error + (addr \<times> heap)" where
  "Both Q h p arguments =
     bindE (exportArgs h arguments) (\<lambda>xs.
     bindE (toViaData Q h xs) (\<lambda>(preds, tags, ok).
       if \<not> ok then Inl errNoVia
       else extendWith (BothM preds) h p))"





























definition denotes :: "heap \<Rightarrow> addr \<Rightarrow> Path option" where
  "denotes h p =
     (if p < length (pathObjects h)
      then (case po_path (pathObjects h ! p) of
              None \<Rightarrow> None
            | Some a \<Rightarrow> if a < length (paths h) then Some (paths h ! a) else None)
      else None)"

text \<open>
  Inputs for the examples: a \<^verbatim>\<open>quad\<close> library that reads every string as an IRI, and the
  heap after \<^verbatim>\<open>g.V("alice")\<close>.
\<close>

definition plainQuad :: quadlib where
  "plainQuad = \<lparr>StringToValue = quad_IRI, StringOf = (\<lambda>v. ''?'')\<rparr>"

definition oneVertex :: heap where
  "oneVertex = \<lparr>paths = [ [IsM [quad_IRI ''alice'']]], pathObjects = [\<lparr>po_s = 0, po_path = Some 0\<rparr>]\<rparr>"

text \<open>
  The shapes of a predicate argument. \<open>predicateValue\<close>: a value (\<^verbatim>\<open>quad.Value\<close>, string,
  boolean, number, time); \<open>pathExpression\<close>: a path or a path object. \<open>statedShape\<close> is
  the list of shapes as the specification gives it: nothing, one predicate value, a list
  of predicate values, or a path expression. \<open>viaShape\<close> is the list the code accepts: it
  adds the empty list, lists that hold path expressions as well, and a one-element list
  around any accepted argument. \<open>tagShape\<close>: what \<^verbatim>\<open>toStrings\<close> takes as tag names.
\<close>

fun predicateValue :: "arg \<Rightarrow> bool" where
  "predicateValue (QuadValue _) = True"
| "predicateValue (GoString _) = True"
| "predicateValue (GoBool _) = True"
| "predicateValue (GoInt _) = True"
| "predicateValue (GoInt64 _) = True"
| "predicateValue (GoFloat64 _) = True"
| "predicateValue (GoTime _) = True"
| "predicateValue _ = False"

fun pathExpression :: "heap \<Rightarrow> arg \<Rightarrow> bool" where
  "pathExpression h (PathPtr _) = True"
| "pathExpression h (PathObject vp) = (vp < length (pathObjects h))"
| "pathExpression h _ = False"

fun statedShape :: "heap \<Rightarrow> arg \<Rightarrow> bool" where
  "statedShape h Nil = True"
| "statedShape h (Slice v) = list_all predicateValue v"
| "statedShape h (StringSlice v) = True"
| "statedShape h x = (predicateValue x \<or> pathExpression h x)"

definition viaElem :: "heap \<Rightarrow> arg \<Rightarrow> bool" where
  "viaElem h x = (predicateValue x \<or> pathExpression h x)"

fun viaShape :: "heap \<Rightarrow> arg \<Rightarrow> bool" where
  "viaShape h Nil = True"
| "viaShape h (Slice []) = True"
| "viaShape h (Slice [x]) = viaShape h x"
| "viaShape h (Slice (x # y # zs)) = list_all (viaElem h) (x # y # zs)"
| "viaShape h (StringSlice v) = True"
| "viaShape h x = viaElem h x"

fun tagShape :: "arg \<Rightarrow> bool" where
  "tagShape (GoString _) = True"
| "tagShape (QuadValue _) = True"
| "tagShape (StringSlice _) = True"
| "tagShape (Slice v) = list_all tagShape v"
| "tagShape _ = False"



section \<open>Properties of the value mapper\<close>

lemma numStore_simps:
  "NameOf (numStore xs) r = r"
  "ValueOf (numStore xs) None = None"
  "ValueOf (numStore xs) (Some x) = (if x \<in> set xs then Some x else None)"
  by (simp_all add: numStore_def)

lemma listScanner_simps:
  "sc_Next listScanner = listScanner_Next"
  "sc_Result listScanner = ls_result"
  "sc_Err listScanner = ls_err"
  "sc_NextPath listScanner = listScanner_NextPath"
  "sc_TagResults listScanner s dst = fold (\<lambda>t d. d(t \<mapsto> ls_result s)) (ls_tags s) dst"
  by (simp_all add: listScanner_def)

lemma listIndex_simps:
  "ix_Contains listIndex = listIndex_Contains"
  "ix_Result listIndex = li_result"
  "ix_Err listIndex = li_err"
  "ix_NextPath listIndex = listIndex_NextPath"
  "ix_TagResults listIndex s dst = fold (\<lambda>t d. d(t \<mapsto> li_result s)) (li_tags s) dst"
  by (simp_all add: listIndex_def)

lemma leafShape_simps:
  "sh_Optimize leafShape ctx sh = ((sh, False), sh)"
  "sh_Stats leafShape ctx sh = (sh, None)"
  by (simp_all add: leafShape_def)

lemmas fixture_simps =
  numStore_simps listScanner_simps listIndex_simps leafShape_simps
  listScanner_Next_def listScanner_NextPath_def listIndex_Contains_def listIndex_NextPath_def
  doubling_def failingOn_def successor_def scanOver_def indexOver_def failedIndex_def
  newValueMapper_def newValueMapperNext_def newValueMapperContains_def

lemma Optimize_flag: "snd (Optimize S ctx it) = True"
  by (simp add: Optimize_def split: prod.splits)

text \<open>
  Claim C3: re-optimizing a value mapper reports "changed" exactly when its child does.
  \<^verbatim>\<open>Optimize\<close> ends in \<^verbatim>\<open>return it, true\<close>: the flag is \<open>True\<close> whatever the child
  answers (\<open>Optimize_flag\<close>). On a child that reports no change the node still reports
  a change, so repeating \<^verbatim>\<open>Optimize\<close> never reaches "no change".
\<close>

theorem C3_Optimize_reports_changed_for_unchanged_child:
  "snd (fst (sh_Optimize leafShape () st)) = False
   \<and> snd (Optimize leafShape () (newValueMapper (numStore [5]) st doubling)) = True"
  by (simp add: Optimize_flag leafShape_simps)

lemma sint_quo2: "sint (int64_quo a 2 + 1) = sint a sdiv 2 + 1"
proof -
  have r: "- (2^63) \<le> sint a" "sint a < 2^63"
    using sint_ge[of a] sint_lt[of a] by simp_all
  have q: "- (2^63) \<le> sint a sdiv 2 + 1" "sint a sdiv 2 + 1 < 2^63"
    using r by (auto simp add: signed_divide_int_def sgn_if) 
  have "int64_quo a 2 + 1 = word_of_int (sint a sdiv 2 + 1)"
    by (simp add: int64_quo_def)
  then have "sint (int64_quo a 2 + 1) = signed_take_bit 63 (sint a sdiv 2 + 1)"
    by (simp only: sint_sbintrunc') simp 
  then show ?thesis using q
    by (simp add: signed_take_bit_int_eq_self)
qed

lemma sdiv2_floor: "0 \<le> (k::int) \<Longrightarrow> 0 \<le> k sdiv 2"
  by (auto simp add: signed_divide_int_def sgn_if)

text \<open>
  Claim C8: the cost estimate of a value mapper is the child's estimate with the size set
  to the child's size divided by two (truncated) plus one, and it is marked inexact
  whatever the child's exactness. The sum does not wrap: as a signed number the new size
  is the signed quotient plus one, so it is at least one when the child's size is not
  negative. The two cost hints and the child's error are passed on unchanged.
\<close>

theorem C8_Stats_half_plus_one_inexact:
  "sint (size_Size (Size (fst (Stats S ctx it))))
     = sint (size_Size (Size (fst (sh_Stats S ctx (vm_sub it))))) sdiv 2 + 1
   \<and> size_Exact (Size (fst (Stats S ctx it))) = False
   \<and> ContainsCost (fst (Stats S ctx it)) = ContainsCost (fst (sh_Stats S ctx (vm_sub it)))
   \<and> NextCost (fst (Stats S ctx it)) = NextCost (fst (sh_Stats S ctx (vm_sub it)))
   \<and> snd (Stats S ctx it) = snd (sh_Stats S ctx (vm_sub it))
   \<and> (0 \<le> sint (size_Size (Size (fst (sh_Stats S ctx (vm_sub it)))))
        \<longrightarrow> 1 \<le> sint (size_Size (Size (fst (Stats S ctx it)))))"
  by (simp add: Stats_def split: prod.splits add: sint_quo2 sdiv2_floor)

text \<open>
  An exact child estimate of size 9 becomes the inexact estimate of size 5.
\<close>

theorem C8_Stats_witness:
  "0 \<le> sint (size_Size (Size (fst (sh_Stats leafShape () exactNine))))
   \<and> size_Exact (Size (fst (sh_Stats leafShape () exactNine)))
   \<and> sint (size_Size (Size (fst (Stats leafShape () (newValueMapper (numStore [5]) exactNine doubling))))) = 5
   \<and> \<not> size_Exact (Size (fst (Stats leafShape () (newValueMapper (numStore [5]) exactNine doubling))))
   \<and> 1 \<le> sint (size_Size (Size (fst (Stats leafShape () (newValueMapper (numStore [5]) exactNine doubling)))))"
  using C8_Stats_half_plus_one_inexact [of leafShape "()" "newValueMapper (numStore [5]) exactNine doubling"]
  by (simp add: leafShape_simps newValueMapper_def exactNine_def signed_divide_int_def)

text \<open>
  Claim C5: in both cursor roles the value mapper adds no tag of its own. \<^verbatim>\<open>TagResults\<close>
  is the child's \<^verbatim>\<open>TagResults\<close> on the same destination map, and \<^verbatim>\<open>NextPath\<close> is the
  child's \<^verbatim>\<open>NextPath\<close>: its answer is returned and only the child's state moves, the
  cursor's own result and error stay as they were.
\<close>

theorem C5_tags_and_alternate_paths_delegated:
  "TagResults S it dst = sc_TagResults S (n_sub it) dst
   \<and> NextPath S ctx it
       = (fst (sc_NextPath S ctx (n_sub it)), it\<lparr>n_sub := snd (sc_NextPath S ctx (n_sub it))\<rparr>)
   \<and> TagResultsC X ic dst = ix_TagResults X (c_sub ic) dst
   \<and> NextPathC X ctx ic
       = (fst (ix_NextPath X ctx (c_sub ic)), ic\<lparr>c_sub := snd (ix_NextPath X ctx (c_sub ic))\<rparr>)"
  by (simp add: TagResults_def NextPath_def TagResultsC_def NextPathC_def split: prod.splits)

text \<open>
  Claim C1: when the mapper fails, the scanner stops, keeps the failure as its error and
  the error is still there after the negative advance. The code does neither. The child
  delivers 5 and 7 and the mapper fails on 5: \<^verbatim>\<open>doMap\<close> stores the failure, the loop goes
  on to 7 and \<^verbatim>\<open>Next\<close> answers \<^verbatim>\<open>true\<close> with result 7; the following \<^verbatim>\<open>Next\<close> finds the
  child used up, overwrites \<^verbatim>\<open>it.err\<close> with the child's \<^verbatim>\<open>nil\<close> error and answers
  \<^verbatim>\<open>false\<close>, so that \<^verbatim>\<open>Err()\<close> is \<^verbatim>\<open>nil\<close>.
\<close>

theorem C1_mapper_error_neither_stops_nor_survives:
  "Next listScanner () mapperFails
     = Some (True, mapperFails\<lparr>n_sub := (scanOver [] None)\<lparr>ls_result := Some 7\<rparr>,
                            n_result := Some 7, n_err := Some ''mapper failed''\<rparr>)
   \<and> Next listScanner ()
        (mapperFails\<lparr>n_sub := (scanOver [] None)\<lparr>ls_result := Some 7\<rparr>,
                   n_result := Some 7, n_err := Some ''mapper failed''\<rparr>)
     = Some (False, mapperFails\<lparr>n_sub := (scanOver [] None)\<lparr>ls_result := Some 7\<rparr>,
                             n_result := Some 7, n_err := None\<rparr>)"
  by (simp add: Next.simps doMap_def Let_def mapperFails_def fixture_simps)

lemma Next_false_err_aux:
  "Next S ctx it = Some r \<Longrightarrow> \<not> fst r \<Longrightarrow> n_err (snd r) = sc_Err S (n_sub (snd r))"
proof (induction rule: Next.raw_induct[rotated 1, consumes 1])
  case (1 nxt S ctx it r)
  then show ?case
    by (auto split: prod.splits if_splits option.splits)
qed

lemma Contains_probed:
  "ValueOf (c_qs ic) (fst (c_mapper ic (NameOf (c_qs ic) val))) = Some h \<Longrightarrow>
   Contains X ctx val ic = (False, ic') \<Longrightarrow> c_err ic' = ix_Err X (c_sub ic')"
  by (auto simp: Contains_def doMapC_def Let_def split: prod.splits option.splits if_splits)

lemma Contains_miss:
  "ValueOf (c_qs ic) (fst (c_mapper ic (NameOf (c_qs ic) val))) = None \<Longrightarrow>
   Contains X ctx val ic =
     (False, if snd (c_mapper ic (NameOf (c_qs ic) val)) \<noteq> None
             then ic\<lparr>c_err := snd (c_mapper ic (NameOf (c_qs ic) val))\<rparr> else ic)"
  by (auto simp: Contains_def doMapC_def Let_def split: prod.splits option.splits if_splits)

text \<open>
  Claim C7, as stated, fails for \<^verbatim>\<open>Contains\<close>: when the mapped value does not intern,
  \<^verbatim>\<open>Contains\<close> answers \<^verbatim>\<open>false\<close> before it looks at the child. Here the child is in the
  failed state, 5 maps to 10, 10 is not stored, and the cursor's error stays \<^verbatim>\<open>nil\<close>.
\<close>

theorem C7_counterexample:
  "fst (Contains listIndex () (Some 5)
          (newValueMapperContains (numStore [5]) (failedIndex ''child failed'') doubling)) = False
   \<and> ix_Err listIndex (c_sub (snd (Contains listIndex () (Some 5)
          (newValueMapperContains (numStore [5]) (failedIndex ''child failed'') doubling))))
       = Some ''child failed''
   \<and> ErrC (snd (Contains listIndex () (Some 5)
          (newValueMapperContains (numStore [5]) (failedIndex ''child failed'') doubling))) = None"
  by (simp add: Contains_def doMapC_def Let_def ErrC_def fixture_simps)

text \<open>
  Claim C7, amended: after \<^verbatim>\<open>Next\<close> has answered \<^verbatim>\<open>false\<close>, and after \<^verbatim>\<open>Contains\<close> has
  answered \<^verbatim>\<open>false\<close> having probed the child (the mapped value interned), the cursor's
  error is the child's error when the child has one. When the mapped value does not
  intern, \<^verbatim>\<open>Contains\<close> answers \<^verbatim>\<open>false\<close> without consulting the child, whose state stays
  as it was; on that path a child's error is not reported.
\<close>

theorem C7_child_error_after_negative_answer:
  "(Next S ctx it = Some (False, it') \<longrightarrow> sc_Err S (n_sub it') = Some e \<longrightarrow> Err it' = Some e)
   \<and> (Contains X ctx val ic = (False, ic') \<longrightarrow>
        ValueOf (c_qs ic) (fst (c_mapper ic (NameOf (c_qs ic) val))) \<noteq> None \<longrightarrow>
        ix_Err X (c_sub ic') = Some e \<longrightarrow> ErrC ic' = Some e)
   \<and> (ValueOf (c_qs ic) (fst (c_mapper ic (NameOf (c_qs ic) val))) = None \<longrightarrow>
        fst (Contains X ctx val ic) = False \<and> c_sub (snd (Contains X ctx val ic)) = c_sub ic)"
proof (intro conjI impI)
  assume "Next S ctx it = Some (False, it')" and "sc_Err S (n_sub it') = Some e"
  with Next_false_err_aux [of S ctx it "(False, it')"] show "Err it' = Some e"
    by (simp add: Err_def)
next
  assume "Contains X ctx val ic = (False, ic')"
    and "ValueOf (c_qs ic) (fst (c_mapper ic (NameOf (c_qs ic) val))) \<noteq> None"
    and "ix_Err X (c_sub ic') = Some e"
  with Contains_probed [of ic val _ X ctx ic'] show "ErrC ic' = Some e"
    by (auto simp: ErrC_def)
next
  assume "ValueOf (c_qs ic) (fst (c_mapper ic (NameOf (c_qs ic) val))) = None"
  from Contains_miss [OF this, of X ctx]
  show "fst (Contains X ctx val ic) = False" by simp
next
  assume "ValueOf (c_qs ic) (fst (c_mapper ic (NameOf (c_qs ic) val))) = None"
  from Contains_miss [OF this, of X ctx]
  show "c_sub (snd (Contains X ctx val ic)) = c_sub ic" by simp
qed

text \<open>
  A scanner whose child fails when it is used up, and an index whose child fails the
  probe: both answer \<^verbatim>\<open>false\<close> and report the child's error. The same index asked for
  7, whose double is not stored, answers \<^verbatim>\<open>false\<close> and leaves the child alone.
\<close>

theorem C7_witness:
  "Next listScanner () scanFailingChild
     = Some (False, scanFailingChild\<lparr>n_sub := (scanOver [] (Some ''child failed''))\<lparr>ls_err := Some ''child failed''\<rparr>,
                           n_err := Some ''child failed''\<rparr>)
   \<and> sc_Err listScanner ((scanOver [] (Some ''child failed''))\<lparr>ls_err := Some ''child failed''\<rparr>)
       = Some ''child failed''
   \<and> Err (scanFailingChild\<lparr>n_sub := (scanOver [] (Some ''child failed''))\<lparr>ls_err := Some ''child failed''\<rparr>,
                   n_err := Some ''child failed''\<rparr>) = Some ''child failed''
   \<and> Contains listIndex () (Some 5) probeFailingChild
     = (False, probeFailingChild\<lparr>c_sub := (indexOver [10] (Some ''child failed''))\<lparr>li_err := Some ''child failed''\<rparr>,
                        c_err := Some ''child failed''\<rparr>)
   \<and> ValueOf (c_qs probeFailingChild)
         (fst (c_mapper probeFailingChild (NameOf (c_qs probeFailingChild) (Some 5)))) = Some 10
   \<and> ix_Err listIndex ((indexOver [10] (Some ''child failed''))\<lparr>li_err := Some ''child failed''\<rparr>)
       = Some ''child failed''
   \<and> ErrC (probeFailingChild\<lparr>c_sub := (indexOver [10] (Some ''child failed''))\<lparr>li_err := Some ''child failed''\<rparr>,
                    c_err := Some ''child failed''\<rparr>) = Some ''child failed''
   \<and> ValueOf (c_qs probeFailingChild)
         (fst (c_mapper probeFailingChild (NameOf (c_qs probeFailingChild) (Some 7)))) = None
   \<and> fst (Contains listIndex () (Some 7) probeFailingChild) = False
   \<and> c_sub (snd (Contains listIndex () (Some 7) probeFailingChild)) = c_sub probeFailingChild"
proof -
  have a: "Next listScanner () scanFailingChild
     = Some (False, scanFailingChild\<lparr>n_sub := (scanOver [] (Some ''child failed''))\<lparr>ls_err := Some ''child failed''\<rparr>,
                           n_err := Some ''child failed''\<rparr>)"
    by (simp add: Next.simps scanFailingChild_def fixture_simps)
  have b: "Contains listIndex () (Some 5) probeFailingChild
     = (False, probeFailingChild\<lparr>c_sub := (indexOver [10] (Some ''child failed''))\<lparr>li_err := Some ''child failed''\<rparr>,
                        c_err := Some ''child failed''\<rparr>)"
    by (simp add: Contains_def doMapC_def Let_def probeFailingChild_def fixture_simps)
  have c: "ValueOf (c_qs probeFailingChild)
         (fst (c_mapper probeFailingChild (NameOf (c_qs probeFailingChild) (Some 5)))) = Some 10"
    by (simp add: probeFailingChild_def fixture_simps)
  have d: "ValueOf (c_qs probeFailingChild)
         (fst (c_mapper probeFailingChild (NameOf (c_qs probeFailingChild) (Some 7)))) = None"
    by (simp add: probeFailingChild_def fixture_simps)
  from C7_child_error_after_negative_answer
    [where S = listScanner and ctx = "()" and it = scanFailingChild and X = listIndex
       and val = "Some 5" and ic = probeFailingChild and e = "''child failed''"
       and it' = "scanFailingChild\<lparr>n_sub := (scanOver [] (Some ''child failed''))\<lparr>ls_err := Some ''child failed''\<rparr>,
                         n_err := Some ''child failed''\<rparr>"
       and ic' = "probeFailingChild\<lparr>c_sub := (indexOver [10] (Some ''child failed''))\<lparr>li_err := Some ''child failed''\<rparr>,
                          c_err := Some ''child failed''\<rparr>"]
     C7_child_error_after_negative_answer
    [where S = listScanner and ctx = "()" and it = scanFailingChild and X = listIndex
       and val = "Some 7" and ic = probeFailingChild and e = "''child failed''"
       and it' = scanFailingChild and ic' = probeFailingChild]
     a b c d
  show ?thesis
    by (simp add: scanFailingChild_def probeFailingChild_def fixture_simps)
qed

text \<open>
  Claim C4: when the child delivers a handle and the mapped value does not intern, the
  candidate is dropped and the scan goes on with the next child result: \<^verbatim>\<open>Next\<close> is
  exactly \<^verbatim>\<open>Next\<close> from the cursor with the child advanced. The intern miss records
  nothing: the error field changes only if the mapper itself returned an error, and when
  it returned none the cursor goes on with the error and the result it had.
\<close>

theorem C4_intern_miss_discarded_silently:
  assumes "sc_Next S ctx (n_sub it) = (True, s')"
    and "n_mapper it (NameOf (n_qs it) (sc_Result S s')) = (mv, e)"
    and "ValueOf (n_qs it) mv = None"
  shows "Next S ctx it =
           Next S ctx (it\<lparr>n_sub := s', n_err := (case e of None \<Rightarrow> n_err it | Some x \<Rightarrow> Some x)\<rparr>)
         \<and> (e = None \<longrightarrow>
               Next S ctx it = Next S ctx (it\<lparr>n_sub := s'\<rparr>)
             \<and> n_err (it\<lparr>n_sub := s'\<rparr>) = n_err it
             \<and> n_result (it\<lparr>n_sub := s'\<rparr>) = n_result it)"
proof -
  have "Next S ctx it =
          Next S ctx (it\<lparr>n_sub := s', n_err := (case e of None \<Rightarrow> n_err it | Some x \<Rightarrow> Some x)\<rparr>)"
    using assms by (subst Next.simps) (auto simp: doMap_def Let_def split: option.splits)
  then show ?thesis by (cases e) simp_all
qed

text \<open>
  The scenario of the specification: the only child result is 5, the mapper doubles, 10
  is not stored. \<^verbatim>\<open>Next\<close> answers \<^verbatim>\<open>false\<close> and the error is \<^verbatim>\<open>nil\<close>.
\<close>

theorem C4_witness:
  "sc_Next listScanner () (n_sub internMiss) = (True, (scanOver [] None)\<lparr>ls_result := Some 5\<rparr>)
   \<and> n_mapper internMiss (NameOf (n_qs internMiss)
         (sc_Result listScanner ((scanOver [] None)\<lparr>ls_result := Some 5\<rparr>))) = (Some 10, None)
   \<and> ValueOf (n_qs internMiss) (Some 10) = None
   \<and> Next listScanner () internMiss
       = Some (False, internMiss\<lparr>n_sub := (scanOver [] None)\<lparr>ls_result := Some 5\<rparr>\<rparr>)
   \<and> Err (internMiss\<lparr>n_sub := (scanOver [] None)\<lparr>ls_result := Some 5\<rparr>\<rparr>) = None"
proof -
  have a: "sc_Next listScanner () (n_sub internMiss)
             = (True, (scanOver [] None)\<lparr>ls_result := Some 5\<rparr>)"
    by (simp add: internMiss_def fixture_simps)
  have b: "n_mapper internMiss (NameOf (n_qs internMiss)
             (sc_Result listScanner ((scanOver [] None)\<lparr>ls_result := Some 5\<rparr>)))
             = (Some 10, None)"
    by (simp add: internMiss_def fixture_simps)
  have c: "ValueOf (n_qs internMiss) (Some 10) = None"
    by (simp add: internMiss_def fixture_simps)
  have d: "Next listScanner () (internMiss\<lparr>n_sub := (scanOver [] None)\<lparr>ls_result := Some 5\<rparr>\<rparr>)
             = Some (False, internMiss\<lparr>n_sub := (scanOver [] None)\<lparr>ls_result := Some 5\<rparr>\<rparr>)"
    by (simp add: Next.simps internMiss_def fixture_simps)
  have e: "Err (internMiss\<lparr>n_sub := (scanOver [] None)\<lparr>ls_result := Some 5\<rparr>\<rparr>) = None"
    by (simp add: Err_def internMiss_def fixture_simps)
  from C4_intern_miss_discarded_silently [OF a b c] a b c d e show ?thesis by simp
qed

text \<open>
  Claim C2, as stated, fails in both directions. The child holds handle 1, the mapper is
  the successor and 0, 1, 2 are stored. Handle 2 is the image of the child's result 1,
  yet \<^verbatim>\<open>Contains(2)\<close> is \<^verbatim>\<open>false\<close> (3 is not stored), without any error; and
  \<^verbatim>\<open>Contains(0)\<close> is \<^verbatim>\<open>true\<close> although no child result maps to 0.
\<close>

theorem C2_counterexample:
  "fst (Contains listIndex () (Some 2) probeSucc) = False
   \<and> fst (ix_Contains listIndex () (Some 1) (c_sub probeSucc)) = True
   \<and> ValueOf (c_qs probeSucc) (fst (c_mapper probeSucc (NameOf (c_qs probeSucc) (Some 1)))) = Some 2
   \<and> fst (Contains listIndex () (Some 0) probeSucc) = True
   \<and> c_err (snd (Contains listIndex () (Some 2) probeSucc)) = None"
  by (simp add: Contains_def doMapC_def Let_def probeSucc_def fixture_simps)

text \<open>
  Claim C2, amended: \<^verbatim>\<open>Contains(x)\<close> is \<^verbatim>\<open>true\<close> iff the mapped value of \<open>x\<close> itself
  interns to a handle \<open>h\<close> and the child's index contains \<open>h\<close>. The mapper is applied to
  the candidate, not inverted.
\<close>

theorem C2_Contains_probes_the_mapped_handle:
  "fst (Contains X ctx x ic) =
     (\<exists>h. ValueOf (c_qs ic) (fst (c_mapper ic (NameOf (c_qs ic) x))) = Some h
          \<and> fst (ix_Contains X ctx (Some h) (c_sub ic)))"
  by (auto simp: Contains_def doMapC_def Let_def split: prod.splits option.splits)

text \<open>
  Handle 0 is accepted because its successor 1 is stored and the child contains it.
\<close>

theorem C2_witness:
  "fst (Contains listIndex () (Some 0) probeSucc)
   \<and> ValueOf (c_qs probeSucc) (fst (c_mapper probeSucc (NameOf (c_qs probeSucc) (Some 0)))) = Some 1
   \<and> fst (ix_Contains listIndex () (Some 1) (c_sub probeSucc))"
  using C2_Contains_probes_the_mapped_handle [of listIndex "()" "Some 0" probeSucc]
  by (simp add: probeSucc_def fixture_simps)

section \<open>Properties of the scripting front end\<close>

lemma bindE_simps [simp]:
  "bindE (Inr x) f = f x"
  "bindE (Inl e) f = Inl e"
  by (simp_all add: bindE_def)

lemma bindE_eq_Inr: "bindE r f = Inr y \<longleftrightarrow> (\<exists>x. r = Inr x \<and> f x = Inr y)"
  by (cases r) simp_all

lemma typesLoop_eq:
  "typesLoop ts vt =
     (if vt \<in> set ts then (True, None) else (False, Some (errUnknownType (GoString vt))))"
  by (induction ts) auto

text \<open>
  Claim C10: the filter function of a type-membership filter accepts a value whose type
  tag is in the list, with a \<^verbatim>\<open>nil\<close> error, and answers \<^verbatim>\<open>false\<close> together with the
  unknown-type error of the tag for any other value (a \<^verbatim>\<open>nil\<close> value has the tag
  \<^verbatim>\<open>unknown\<close>). In the Scanner of the filter node this is a failure of the user
  function: at the first child result whose tag is not in the list the Scanner answers
  \<^verbatim>\<open>false\<close> and holds the unknown-type error, instead of discarding the value and going
  on; a child result whose tag is in the list is delivered and leaves the error alone.
\<close>

theorem C10_type_filter_fails_on_other_types:
  "filterTypes_filter r val =
     (if typeCheck val \<in> set (types r) then (True, None)
      else (False, Some (errUnknownType (GoString (typeCheck val)))))
   \<and> (f_filter it = filterTypes_filter r \<longrightarrow> sc_Next S ctx (f_sub it) = (True, s') \<longrightarrow>
        typeCheck (NameOf (f_qs it) (sc_Result S s')) \<notin> set (types r) \<longrightarrow>
        NextFilter S ctx it =
          Some (False, it\<lparr>f_sub := s',
                  f_err := Some (errUnknownType
                    (GoString (typeCheck (NameOf (f_qs it) (sc_Result S s')))))\<rparr>))
   \<and> (f_filter it = filterTypes_filter r \<longrightarrow> sc_Next S ctx (f_sub it) = (True, s') \<longrightarrow>
        typeCheck (NameOf (f_qs it) (sc_Result S s')) \<in> set (types r) \<longrightarrow>
        NextFilter S ctx it = Some (True, it\<lparr>f_sub := s', f_result := sc_Result S s'\<rparr>))"
proof (intro conjI impI)
  show eq: "filterTypes_filter r val =
     (if typeCheck val \<in> set (types r) then (True, None)
      else (False, Some (errUnknownType (GoString (typeCheck val)))))" for val
    by (simp add: filterTypes_filter_def typesLoop_eq)
  {
    assume f: "f_filter it = filterTypes_filter r" and n: "sc_Next S ctx (f_sub it) = (True, s')"
    {
      assume "typeCheck (NameOf (f_qs it) (sc_Result S s')) \<notin> set (types r)"
      with f n eq show "NextFilter S ctx it =
          Some (False, it\<lparr>f_sub := s',
                  f_err := Some (errUnknownType
                    (GoString (typeCheck (NameOf (f_qs it) (sc_Result S s')))))\<rparr>)"
        by (subst NextFilter.simps) simp
    }
    {
      assume "typeCheck (NameOf (f_qs it) (sc_Result S s')) \<in> set (types r)"
      with f n eq show "NextFilter S ctx it = Some (True, it\<lparr>f_sub := s', f_result := sc_Result S s'\<rparr>)"
        by (subst NextFilter.simps) simp
    }
  }
qed

text \<open>
  \<^verbatim>\<open>Literal\<close> over a child that delivers the handle of an IRI and then the handle of an
  integer: the first \<^verbatim>\<open>Next\<close> answers \<^verbatim>\<open>false\<close> with the unknown-type error of \<^verbatim>\<open>iri\<close>.
  Over the integer alone, \<^verbatim>\<open>Next\<close> delivers it.
\<close>

theorem C10_witness:
  "filterTypes_filter literalTypes (Some (quad_IRI ''alice''))
     = (False, Some (errUnknownType (GoString ''iri'')))
   \<and> filterTypes_filter literalTypes (Some (quad_Int 5)) = (True, None)
   \<and> NextFilter listScanner () (literalsOf [0, 1])
       = Some (False, (literalsOf [0, 1])
           \<lparr>f_sub := (f_sub (literalsOf [0, 1]))\<lparr>ls_rest := [1], ls_result := Some 0\<rparr>,
            f_err := Some (errUnknownType (GoString ''iri''))\<rparr>)
   \<and> NextFilter listScanner () (literalsOf [1])
       = Some (True, (literalsOf [1])
           \<lparr>f_sub := (f_sub (literalsOf [1]))\<lparr>ls_rest := [], ls_result := Some 1\<rparr>,
            f_result := Some 1\<rparr>)"
proof -
  have f: "f_filter (literalsOf hs) = filterTypes_filter literalTypes" for hs
    by (simp add: literalsOf_def BuildIterator_def newValueFilterNext_def)
  have q: "f_qs (literalsOf hs) = quadStore [quad_IRI ''alice'', quad_Int 5]" for hs
    by (simp add: literalsOf_def BuildIterator_def newValueFilterNext_def)
  have n0: "sc_Next listScanner () (f_sub (literalsOf [0, 1]))
              = (True, (f_sub (literalsOf [0, 1]))\<lparr>ls_rest := [1], ls_result := Some 0\<rparr>)"
    by (simp add: literalsOf_def BuildIterator_def newValueFilterNext_def listScanner_simps
          listScanner_Next_def)
  have n1: "sc_Next listScanner () (f_sub (literalsOf [1]))
              = (True, (f_sub (literalsOf [1]))\<lparr>ls_rest := [], ls_result := Some 1\<rparr>)"
    by (simp add: literalsOf_def BuildIterator_def newValueFilterNext_def listScanner_simps
          listScanner_Next_def)
  from C10_type_filter_fails_on_other_types
         [of literalTypes "Some (quad_IRI ''alice'')" "literalsOf [0, 1]" listScanner "()"
             "(f_sub (literalsOf [0, 1]))\<lparr>ls_rest := [1], ls_result := Some 0\<rparr>"]
       C10_type_filter_fails_on_other_types
         [of literalTypes "Some (quad_Int 5)" "literalsOf [1]" listScanner "()"
             "(f_sub (literalsOf [1]))\<lparr>ls_rest := [], ls_result := Some 1\<rparr>"]
       f n0 n1
  show ?thesis
    by (simp add: q quadStore_def literalTypes_def listScanner_simps)
qed

lemma getObj_Inr: "getObj h p = Inr po \<longleftrightarrow> p < length (pathObjects h) \<and> po = pathObjects h ! p"
  by (auto simp: getObj_def)

lemma getPath_Inr:
  "getPath h np = Inr st \<longleftrightarrow> (\<exists>a. np = Some a \<and> a < length (paths h) \<and> st = paths h ! a)"
  by (auto simp: getPath_def split: option.splits)

lemma extendWith_Inr:
  assumes "extendWith m h p = Inr (r, h')"
  shows "\<exists>a. p < length (pathObjects h) \<and> po_path (pathObjects h ! p) = Some a \<and> a < length (paths h)
       \<and> r = length (pathObjects h)
       \<and> paths h' = paths h @ [paths h ! a, paths h ! a @ [m]]
       \<and> pathObjects h' =
           (pathObjects h)[p := (pathObjects h ! p)\<lparr>po_path := Some (length (paths h))\<rparr>]
             @ [\<lparr>po_s = po_s (pathObjects h ! p), po_path = Some (Suc (length (paths h)))\<rparr>]"
  using assms
  by (auto simp: extendWith_def clonePath_def path_Clone_def path_extend_def new_def allocPath_def
        bindE_eq_Inr getObj_Inr getPath_Inr nth_append split: prod.splits)

text \<open>
  A failing call leaves no trace: the argument checks come before \<^verbatim>\<open>clonePath\<close>, and once
  \<^verbatim>\<open>clonePath\<close> has written to the receiver the rest of the call cannot fail. This is why
  a failure is modelled as an error without a heap.
\<close>

lemma extendWith_cannot_fail_after_clonePath:
  assumes "clonePath h p = Inr (np, h1)"
  shows "\<not> isl (bindE (path_extend m h1 np) (\<lambda>(np', h2). new h2 p np'))"
proof -
  from assms obtain a where
    p: "p < length (pathObjects h)" and a: "po_path (pathObjects h ! p) = Some a"
    and al: "a < length (paths h)" and np: "np = Some a"
    and h1: "h1 = h\<lparr>paths := paths h @ [paths h ! a],
                    pathObjects := (pathObjects h)
                      [p := (pathObjects h ! p)\<lparr>po_path := Some (length (paths h))\<rparr>]\<rparr>"
    by (auto simp: clonePath_def path_Clone_def allocPath_def bindE_eq_Inr getObj_Inr getPath_Inr)
  show ?thesis
    using p al
    by (simp add: np h1 path_extend_def new_def allocPath_def getObj_def getPath_def nth_append)
qed







lemma toQuadValue_ok: "\<not> isl (toQuadValue Q x) \<longleftrightarrow> predicateValue x"
  by (cases x) (auto split: float64.splits)

lemma viaElems_ok: "\<not> isl (viaElems Q h v) \<longleftrightarrow> list_all (viaElem h) v"
proof (induction v)
  case Nil
  then show ?case by simp
next
  case (Cons x v)
  have one: "\<not> isl (case x of
              PathPtr _ \<Rightarrow> Inr x
            | PathObject vp \<Rightarrow> bindE (getObj h vp) (\<lambda>po. Inr (PathPtr (po_path po)))
            | _ \<Rightarrow> (case toQuadValue Q x of
                       Inr qv \<Rightarrow> Inr (QuadValue qv)
                     | Inl _ \<Rightarrow> Inl (Errorf ''unsupported type: %T'' x))) \<longleftrightarrow> viaElem h x"
    by (cases x) (auto simp: viaElem_def getObj_def split: float64.splits)
  show ?case
    using one Cons.IH
    by (cases "case x of
              PathPtr _ \<Rightarrow> Inr x
            | PathObject vp \<Rightarrow> bindE (getObj h vp) (\<lambda>po. Inr (PathPtr (po_path po)))
            | _ \<Rightarrow> (case toQuadValue Q x of
                       Inr qv \<Rightarrow> Inr (QuadValue qv)
                     | Inl _ \<Rightarrow> Inl (Errorf ''unsupported type: %T'' x))";
        cases "viaElems Q h v") simp_all
qed

lemma viaElems_strings:
  "viaElems Q h (map GoString v) = Inr (map (\<lambda>s. QuadValue (StringToValue Q s)) v)"
  by (induction v) simp_all

lemma toVia_strings:
  "toVia Q h (map GoString v) = Inr (map (\<lambda>s. QuadValue (StringToValue Q s)) v)"
proof (cases v)
  case Nil
  then show ?thesis by (simp add: toVia.simps)
next
  case (Cons s ss)
  then show ?thesis
    using viaElems_strings [of Q h v]
    by (subst toVia.simps) (simp split: list.splits)
qed

lemma viaElems_single: "\<not> isl (viaElems Q h [x]) \<longleftrightarrow> viaElem h x"
  using viaElems_ok [of Q h "[x]"] by simp

lemma toVia_other:
  "x \<noteq> Nil \<Longrightarrow> (\<And>v. x \<noteq> Slice v) \<Longrightarrow> (\<And>v. x \<noteq> StringSlice v) \<Longrightarrow>
     toVia Q h [x] = viaElems Q h [x]"
  by (subst toVia.simps) (cases x; auto)

lemma toVia_single: "\<not> isl (toVia Q h [x]) \<longleftrightarrow> viaShape h x"
proof (induction h x rule: viaShape.induct)
  case (3 h x)
  then show ?case by (subst toVia.simps) simp
next
  case (4 h x y zs)
  show ?case
    using viaElems_ok [of Q h "x # y # zs"]
    by (subst toVia.simps, simp, subst toVia.simps, simp) 
next
  case (5 h v)
  then show ?case by (subst toVia.simps) (simp add: toVia_strings)
qed (simp_all add: toVia_other viaElems_single toVia.simps del: viaElems.simps)

lemma toStrings_ok: "\<not> isl (toStrings Q xs) \<longleftrightarrow> list_all tagShape xs"
proof (induction Q xs rule: toStrings.induct)
  case (1 Q)
  then show ?case by simp
next
  case (2 Q x objs)
  show ?case
  proof (cases x)
    case (Slice v)
    with 2 show ?thesis
      by (cases "toStrings Q v"; cases "toStrings Q objs") simp_all
  qed (use 2 in \<open>(cases "toStrings Q objs"; simp)+\<close>)
qed

lemma toViaData_ok:
  "\<not> isl (toViaData Q h objs) \<longleftrightarrow>
     objs = [] \<or> (viaShape h (hd objs) \<and> list_all tagShape (tl objs))"
proof (cases objs)
  case Nil
  then show ?thesis by (simp add: toViaData_def)
next
  case (Cons x xs)
  show ?thesis
    using toVia_single [of Q h x] toStrings_ok [of Q xs]
    by (cases "toVia Q h [x]"; cases "toStrings Q xs"; cases xs) (simp_all add: toViaData_def Cons)
qed

lemma toViaData_flag: "toViaData Q h objs = Inr (preds, tags, ok) \<Longrightarrow> ok"
  by (auto simp: toViaData_def bindE_eq_Inr)

lemma extendWith_ok: "\<not> isl (extendWith m h p) \<longleftrightarrow> denotes h p \<noteq> None"
proof
  assume "\<not> isl (extendWith m h p)"
  then obtain r h' where "extendWith m h p = Inr (r, h')"
    by (cases "extendWith m h p") auto
  from extendWith_Inr [OF this] show "denotes h p \<noteq> None"
    by (auto simp: denotes_def)
next
  assume "denotes h p \<noteq> None"
  then show "\<not> isl (extendWith m h p)"
    by (auto simp: denotes_def extendWith_def clonePath_def path_Clone_def path_extend_def
          new_def allocPath_def getObj_def getPath_def nth_append split: option.splits if_splits)
qed

lemma inout_ok:
  assumes "exportArgs h arguments = Inr objs"
  shows "\<not> isl (inout Q h p arguments d) \<longleftrightarrow> \<not> isl (toViaData Q h objs) \<and> denotes h p \<noteq> None"
proof (cases "toViaData Q h objs")
  case (Inl e)
  then show ?thesis using assms by (simp add: inout_def)
next
  case (Inr t)
  obtain preds tags ok where t: "t = (preds, tags, ok)" by (cases t)
  with Inr toViaData_flag have ok by blast
  with Inr t assms show ?thesis
    by (simp add: inout_def extendWith_ok)
qed

lemma Both_ok:
  assumes "exportArgs h arguments = Inr objs"
  shows "\<not> isl (Both Q h p arguments) \<longleftrightarrow> \<not> isl (toViaData Q h objs) \<and> denotes h p \<noteq> None"
proof (cases "toViaData Q h objs")
  case (Inl e)
  then show ?thesis using assms by (simp add: Both_def)
next
  case (Inr t)
  obtain preds tags ok where t: "t = (preds, tags, ok)" by (cases t)
  with Inr toViaData_flag have ok by blast
  with Inr t assms show ?thesis
    by (simp add: Both_def extendWith_ok)
qed

text \<open>
  Claim C9, as stated, fails in its last part: arguments of shapes other than the four
  listed are accepted. \<^verbatim>\<open>out([ ["follows"] ])\<close>, a list inside a list, is followed like
  \<^verbatim>\<open>out("follows")\<close>; a list that holds a path expression next to a value is accepted;
  and so is \<^verbatim>\<open>both([null])\<close>.
\<close>

theorem C9_counterexample:
  "\<not> statedShape oneVertex (Slice [Slice [GoString ''follows'']])
   \<and> Out plainQuad oneVertex 0 [Slice [Slice [GoString ''follows'']]]
       = Inr (1, \<lparr>paths = [ [IsM [quad_IRI ''alice'']], [IsM [quad_IRI ''alice'']],
                          [IsM [quad_IRI ''alice''], OutM [QuadValue (quad_IRI ''follows'')]]],
                 pathObjects = [\<lparr>po_s = 0, po_path = Some 1\<rparr>, \<lparr>po_s = 0, po_path = Some 2\<rparr>]\<rparr>)
   \<and> \<not> statedShape oneVertex (Slice [PathPtr (Some 0), GoString ''follows''])
   \<and> \<not> isl (In plainQuad oneVertex 0 [Slice [PathObject 0, GoString ''follows'']])
   \<and> \<not> statedShape oneVertex (Slice [Nil])
   \<and> \<not> isl (Both plainQuad oneVertex 0 [Slice [Nil]])"
  by (simp add: Out_def In_def inout_def Both_def exportArgs_def toViaData_def toVia.simps
        extendWith_def clonePath_def path_Clone_def path_extend_def new_def allocPath_def
        getObj_def getPath_def oneVertex_def plainQuad_def)

text \<open>
  Claim C9, amended: \<^verbatim>\<open>toViaData\<close> succeeds exactly when there is no argument at all, or
  the first argument has one of the shapes of \<open>viaShape\<close> (null, one predicate value, a
  path expression, a list of strings, the empty list, a one-element list around an
  accepted argument, a longer list of predicate values and path expressions) and the
  remaining arguments are tag names; then its flag is \<^verbatim>\<open>true\<close>. On a usable receiver
  \<^verbatim>\<open>In\<close>, \<^verbatim>\<open>Out\<close> and \<^verbatim>\<open>Both\<close> succeed exactly when \<^verbatim>\<open>toViaData\<close> does on the exported
  arguments, and fail with its error otherwise.
\<close>

theorem C9_predicate_argument_shapes:
  "(\<not> isl (toViaData Q h objs) \<longleftrightarrow>
      objs = [] \<or> (viaShape h (hd objs) \<and> list_all tagShape (tl objs)))
   \<and> (toViaData Q h objs = Inr (preds, tags, ok) \<longrightarrow> ok)
   \<and> (exportArgs h arguments = Inr objs \<longrightarrow> denotes h p \<noteq> None \<longrightarrow>
        (\<not> isl (In Q h p arguments) \<longleftrightarrow> \<not> isl (toViaData Q h objs))
      \<and> (\<not> isl (Out Q h p arguments) \<longleftrightarrow> \<not> isl (toViaData Q h objs))
      \<and> (\<not> isl (Both Q h p arguments) \<longleftrightarrow> \<not> isl (toViaData Q h objs)))"
  using toViaData_ok [of Q h objs] toViaData_flag [of Q h objs preds tags ok]
    inout_ok [of h arguments objs Q p] Both_ok [of h arguments objs Q p]
  by (auto simp: In_def Out_def)

text \<open>
  \<^verbatim>\<open>in(["follows", path], "pred")\<close> is accepted; \<^verbatim>\<open>out({})\<close>, a map, is rejected.
\<close>

theorem C9_witness:
  "exportArgs oneVertex [Slice [GoString ''follows'', PathObject 0], GoString ''pred'']
     = Inr [Slice [GoString ''follows'', PathPtr (Some 0)], GoString ''pred'']
   \<and> denotes oneVertex 0 \<noteq> None
   \<and> viaShape oneVertex (Slice [GoString ''follows'', PathPtr (Some 0)])
   \<and> toViaData plainQuad oneVertex [Slice [GoString ''follows'', PathPtr (Some 0)], GoString ''pred'']
       = Inr ([QuadValue (quad_IRI ''follows''), PathPtr (Some 0)], [''pred''], True)
   \<and> \<not> isl (In plainQuad oneVertex 0 [Slice [GoString ''follows'', PathObject 0], GoString ''pred''])
   \<and> exportArgs oneVertex [GoMap []] = Inr [GoMap []]
   \<and> \<not> viaShape oneVertex (GoMap [])
   \<and> isl (Out plainQuad oneVertex 0 [GoMap []])
   \<and> isl (Both plainQuad oneVertex 0 [GoMap []])"
proof -
  have a: "exportArgs oneVertex [Slice [GoString ''follows'', PathObject 0], GoString ''pred'']
     = Inr [Slice [GoString ''follows'', PathPtr (Some 0)], GoString ''pred'']"
    by (simp add: exportArgs_def getObj_def oneVertex_def)
  have b: "denotes oneVertex 0 \<noteq> None"
    by (simp add: denotes_def oneVertex_def)
  have c: "toViaData plainQuad oneVertex [Slice [GoString ''follows'', PathPtr (Some 0)], GoString ''pred'']
       = Inr ([QuadValue (quad_IRI ''follows''), PathPtr (Some 0)], [''pred''], True)"
    by (simp add: toViaData_def toVia.simps plainQuad_def)
  have d: "exportArgs oneVertex [GoMap []] = Inr [GoMap []]"
    by (simp add: exportArgs_def)
  have e: "\<not> viaShape oneVertex (GoMap [])"
    by (simp add: viaElem_def)
  from C9_predicate_argument_shapes
        [of plainQuad oneVertex "[Slice [GoString ''follows'', PathPtr (Some 0)], GoString ''pred'']"
            "[QuadValue (quad_IRI ''follows''), PathPtr (Some 0)]" "[''pred'']" True
            "[Slice [GoString ''follows'', PathObject 0], GoString ''pred'']" 0]
       C9_predicate_argument_shapes
        [of plainQuad oneVertex "[GoMap []]" "[]" "[]" True "[GoMap []]" 0]
       a b c d e
  show ?thesis by simp
qed

end
